theory Spec2Isabelle
  imports Complex_Main
begin

section \<open>Parsed pages and the XPath queries of the crawler\<close>

text \<open>
  The crawler (\<^verbatim>\<open>crawler.py\<close>) hands every response body to \<^verbatim>\<open>lxml.html.fromstring\<close> and
  queries the resulting tree with fixed XPath expressions. A page is modelled as the tree the
  XPath data model sees: an element has a tag, attributes and an ordered list of children,
  which are elements or text nodes. The \<open>tree\<close> of a query is the root element of the parsed
  document; parsing itself is lxml's and is not modelled.
\<close>

datatype node =
    Element (tag: string) (attrib: "(string \<times> string) list") (children: "node list")
  | Text string

text \<open>\<^verbatim>\<open>element.get(name)\<close>: the attribute's value, \<^verbatim>\<open>None\<close> when the element has no such
  attribute.\<close>

fun get_attribute :: "node \<Rightarrow> string \<Rightarrow> string option" where
  "get_attribute (Element t as cs) name = map_of as name"
| "get_attribute (Text s) name = None"

text \<open>The step \<^verbatim>\<open>child::t\<close>: the element children named \<open>t\<close>, in document order.\<close>

fun is_element_named :: "string \<Rightarrow> node \<Rightarrow> bool" where
  "is_element_named t (Element t' as cs) = (t' = t)"
| "is_element_named t (Text s) = False"

fun child_elements :: "string \<Rightarrow> node \<Rightarrow> node list" where
  "child_elements t (Element t' as cs) = filter (is_element_named t) cs"
| "child_elements t (Text s) = []"

text \<open>The step \<^verbatim>\<open>text()\<close>: the text-node children, as strings.\<close>

fun text_of :: "node \<Rightarrow> string list" where
  "text_of (Text s) = [s]"
| "text_of (Element t as cs) = []"

fun text_children :: "node \<Rightarrow> string list" where
  "text_children (Element t as cs) = concat (map text_of cs)"
| "text_children (Text s) = []"

text \<open>The step \<^verbatim>\<open>td[k]\<close> from a row: the \<open>k\<close>-th \<^verbatim>\<open>td\<close> child (counted from 1), if there is
  one.\<close>

definition td :: "nat \<Rightarrow> node \<Rightarrow> node list" where
  "td k row = take 1 (drop (k - 1) (child_elements ''td'' row))"

text \<open>\<^verbatim>\<open>row.xpath("td[k]/a/text()")\<close> and \<^verbatim>\<open>row.xpath("td[k]/a")\<close>.\<close>

definition xpath_td_a :: "nat \<Rightarrow> node \<Rightarrow> node list" where
  "xpath_td_a k row = concat (map (child_elements ''a'') (td k row))"

definition xpath_td_a_text :: "nat \<Rightarrow> node \<Rightarrow> string list" where
  "xpath_td_a_text k row = concat (map text_children (xpath_td_a k row))"

text \<open>
  An absolute path \<^verbatim>\<open>//x[...]/m/l\<close> selects every element named \<open>l\<close> whose parent is an
  element named \<open>m\<close> whose parent satisfies the first step; lxml returns the node-set in
  document order. \<open>path3\<close> walks the tree in document order (preorder) and carries what the
  two ancestors of the current node are: \<open>in_top\<close> says that the parent satisfies the first
  step, \<open>in_mid\<close> that the parent is an \<open>m\<close> whose own parent satisfies the first step.
\<close>

fun path3 :: "(node \<Rightarrow> bool) \<Rightarrow> string \<Rightarrow> string \<Rightarrow> bool \<Rightarrow> bool \<Rightarrow> node \<Rightarrow> node list" where
  "path3 first m l in_top in_mid (Text s) = []"
| "path3 first m l in_top in_mid (Element t as cs) =
     (if in_mid \<and> t = l then [Element t as cs] else []) @
     concat (map (path3 first m l (first (Element t as cs)) (in_top \<and> t = m)) cs)"

definition has_id :: "string \<Rightarrow> string \<Rightarrow> node \<Rightarrow> bool" where
  "has_id t i n = (is_element_named t n \<and> get_attribute n ''id'' = Some i)"

text \<open>\<^verbatim>\<open>tree.xpath("//table[@id='writeups_table']/tbody/tr")\<close>\<close>

definition xpath_rows :: "node \<Rightarrow> node list" where
  "xpath_rows tree = path3 (has_id ''table'' ''writeups_table'') ''tbody'' ''tr'' False False tree"

text \<open>\<^verbatim>\<open>tree.xpath("//div[@id='id_description']/p/a")\<close>\<close>

definition xpath_description :: "node \<Rightarrow> node list" where
  "xpath_description tree = path3 (has_id ''div'' ''id_description'') ''p'' ''a'' False False tree"

text \<open>\<^verbatim>\<open>//\<close>: every element of the document, in document order.\<close>

fun descendant_or_self :: "node \<Rightarrow> node list" where
  "descendant_or_self (Text s) = []"
| "descendant_or_self (Element t as cs) =
     Element t as cs # concat (map descendant_or_self cs)"

text \<open>\<^verbatim>\<open>tree.xpath("//a[text()='Original writeup']")\<close>: an \<^verbatim>\<open>a\<close> element is selected when one
  of its text-node children is exactly the marker.\<close>

definition xpath_original_writeup :: "node \<Rightarrow> node list" where
  "xpath_original_writeup tree =
     filter (\<lambda>n. is_element_named ''a'' n \<and> ''Original writeup'' \<in> set (text_children n))
       (descendant_or_self tree)"

section \<open>Errors, effects and the network\<close>

datatype error =
    CouldNotFetchInformation string
  | IndexError
  | TypeError
  | ParserError
  | RequestException
  | NameError

record RowInformation =
  ctf :: string
  challenge :: string
  link :: "string option"

text \<open>What a run does besides returning: the HTTP requests it sends, the sleeps of the
  retry loop (tagged with the attempt index \<open>i\<close> whose backoff is slept), and the lines the
  top-level script writes. \<^verbatim>\<open>logging.debug\<close> is below the level the script configures and
  leaves no event.\<close>

datatype event =
    Get string
  | Sleep nat
  | LogInfo string
  | LogException string
  | Print string
  | PPrint "RowInformation list"

text \<open>A response as the crawler reads it: the status code, and the body as
  \<^verbatim>\<open>html.fromstring\<close> parses it (\<open>None\<close> for a body lxml rejects with a
  \<^verbatim>\<open>ParserError\<close>, such as an empty document). \<^verbatim>\<open>requests.get\<close> either returns a
  response or raises.\<close>

record response =
  status_code :: int
  content :: "node option"

datatype net_result = Response response | RequestFailed

type_synonym network = "string \<Rightarrow> net_result"

definition fromstring :: "node option \<Rightarrow> error + node" where
  "fromstring body = (case body of None \<Rightarrow> Inl ParserError | Some tree \<Rightarrow> Inr tree)"

section \<open>The crawler\<close>

definition PARALLEL_REQ :: nat where "PARALLEL_REQ = 7"
definition MAX_RETRIES :: nat where "MAX_RETRIES = 15"
definition BASE_URL :: string where "BASE_URL = ''https://ctftime.org''"

text \<open>\<^verbatim>\<open>str.format\<close> of an integer: its decimal digits.\<close>

definition digit_char :: "nat \<Rightarrow> char" where
  "digit_char d = ''0123456789'' ! d"

function str_nat :: "nat \<Rightarrow> string" where
  "str_nat n = (if n < 10 then [digit_char n] else str_nat (n div 10) @ [digit_char (n mod 10)])"
  by pat_completeness auto
termination
  by (relation "measure id") auto

definition str_int :: "int \<Rightarrow> string" where
  "str_int i = (if i < 0 then CHR ''-'' # str_nat (nat (- i)) else str_nat (nat i))"

definition assert_status_200 :: "int \<Rightarrow> error + unit" where
  "assert_status_200 status =
     (if status \<noteq> 200
      then Inl (CouldNotFetchInformation (''Excpected status_code = 200, got '' @ str_int status))
      else Inr ())"

text \<open>\<open>get_writeup_url\<close> sends one request, whatever happens next.\<close>

definition get_writeup_url :: "network \<Rightarrow> string \<Rightarrow> event list \<times> (error + string option)" where
  "get_writeup_url net url =
     ([Get url],
      (case net url of
         RequestFailed \<Rightarrow> Inl RequestException
       | Response r \<Rightarrow>
           (case assert_status_200 (status_code r) of
              Inl e \<Rightarrow> Inl e
            | Inr _ \<Rightarrow>
                (case fromstring (content r) of
                   Inl e \<Rightarrow> Inl e
                 | Inr tree \<Rightarrow>
                     (case xpath_description tree of
                        a # _ \<Rightarrow> Inr (get_attribute a ''href'')
                      | [] \<Rightarrow>
                          (case xpath_original_writeup tree of
                             a # _ \<Rightarrow> Inr (get_attribute a ''href'')
                           | [] \<Rightarrow> Inr (Some url)))))))"

text \<open>\<^verbatim>\<open>xs[0]\<close> raises \<^verbatim>\<open>IndexError\<close> on an empty list.\<close>

definition item0 :: "'a list \<Rightarrow> error + 'a" where
  "item0 xs = (case xs of [] \<Rightarrow> Inl IndexError | x # _ \<Rightarrow> Inr x)"

subsection \<open>The backoff delay\<close>

text \<open>
  \<^verbatim>\<open>wait_time = (2 ** (i + random.random())) / 1000\<close> is computed in Python floats, IEEE 754
  doubles: every operation returns the exact result rounded to the nearest value with a
  53-bit significand, ties to the even significand. \<open>fl\<close> is this rounding on the reals:
  \<open>binade x\<close> is the exponent \<open>e\<close> with \<open>2^e \<le> x < 2^(e+1)\<close>, the doubles of that binade are
  the multiples of \<open>2^(e-52)\<close>, and \<open>rne\<close> rounds to the nearest integer, ties to even. The
  exponent range of doubles is not modelled (the nonzero values of this computation lie
  between \<open>2^-53\<close> and \<open>2^15\<close>, far inside it). \<^verbatim>\<open>random.random()\<close> returns a double \<open>u\<close> with \<open>0 \<le> u < 1\<close>, a multiple
  of \<open>2^-53\<close>; it is the parameter \<open>u\<close>. \<^verbatim>\<open>2 ** x\<close> is C's \<^verbatim>\<open>pow(2.0, x)\<close>, taken as correctly
  rounded; where \<open>2^x\<close> is a double itself (\<open>x\<close> an integer) the result is exact.
\<close>

definition rne :: "real \<Rightarrow> int" where
  "rne q =
     (let f = \<lfloor>q\<rfloor>
      in if q - of_int f < 1 / 2 then f
         else if 1 / 2 < q - of_int f then f + 1
         else if even f then f else f + 1)"

definition pow2 :: "int \<Rightarrow> real" where
  "pow2 e = 2 powr of_int e"

definition binade :: "real \<Rightarrow> int" where
  "binade x = \<lfloor>log 2 x\<rfloor>"

definition fl :: "real \<Rightarrow> real" where
  "fl x =
     (if x = 0 then 0
      else if 0 < x then of_int (rne (x / pow2 (binade x - 52))) * pow2 (binade x - 52)
      else - (of_int (rne (- x / pow2 (binade (- x) - 52))) * pow2 (binade (- x) - 52)))"


definition retries_message :: "string \<Rightarrow> string \<Rightarrow> string" where
  "retries_message c ch =
     ''Could not fetch write-up URL ('' @ c @ '' - '' @ ch @ '') information after '' @
     str_nat MAX_RETRIES @ '' retries.''"

text \<open>
  The loop \<^verbatim>\<open>for i in range(MAX_RETRIES)\<close> of \<open>extract_info\<close>, from attempt \<open>i\<close> on. \<open>net i\<close>
  is the network as attempt \<open>i\<close> of this row finds it. \<^verbatim>\<open>BASE_URL + link\<close> raises
  \<^verbatim>\<open>TypeError\<close> when the anchor had no \<^verbatim>\<open>href\<close>; only \<open>CouldNotFetchInformation\<close> is
  caught, every other exception leaves the loop. \<open>Sleep i\<close> is the sleep after the failed
  attempt \<open>i\<close>; it lasts \<open>wait_time i u\<close> seconds, for the draw \<open>u\<close> of that attempt. The draw
  changes nothing else, so the trace records the index only.
\<close>

function retry_loop ::
  "(nat \<Rightarrow> network) \<Rightarrow> string \<Rightarrow> string \<Rightarrow> string option \<Rightarrow> nat \<Rightarrow> event list \<times> (error + RowInformation)" where
  "retry_loop net c ch l i =
     (if i < MAX_RETRIES then
        (case l of
           None \<Rightarrow> ([], Inl TypeError)
         | Some path \<Rightarrow>
             (case get_writeup_url (net i) (BASE_URL @ path) of
                (es, Inr url) \<Rightarrow> (es, Inr \<lparr>ctf = c, challenge = ch, link = url\<rparr>)
              | (es, Inl (CouldNotFetchInformation msg)) \<Rightarrow>
                  (case retry_loop net c ch l (Suc i) of
                     (es', r) \<Rightarrow> (es @ [Sleep i] @ es', r))
              | (es, Inl e) \<Rightarrow> (es, Inl e)))
      else ([], Inl (CouldNotFetchInformation (retries_message c ch))))"
  by pat_completeness auto
termination
  by (relation "measure (\<lambda>(net, c, ch, l, i). MAX_RETRIES - i)") auto

definition extract_info :: "(nat \<Rightarrow> network) \<Rightarrow> node \<Rightarrow> event list \<times> (error + RowInformation)" where
  "extract_info net row =
     (case item0 (xpath_td_a_text 1 row) of
        Inl e \<Rightarrow> ([], Inl e)
      | Inr c \<Rightarrow>
          (case item0 (xpath_td_a_text 2 row) of
             Inl e \<Rightarrow> ([], Inl e)
           | Inr ch \<Rightarrow>
               (case item0 (xpath_td_a 5 row) of
                  Inl e \<Rightarrow> ([], Inl e)
                | Inr a \<Rightarrow> retry_loop net c ch (get_attribute a ''href'') 0)))"

subsection \<open>The thread pool\<close>

text \<open>
  \<^verbatim>\<open>ThreadPool(PARALLEL_REQ).map(f, xs)\<close>, as CPython's \<^verbatim>\<open>multiprocessing.pool\<close> runs it:
  the items are cut into chunks of \<open>chunksize\<close>, each chunk is one task that applies \<open>f\<close> to
  its items in order (\<^verbatim>\<open>mapstar\<close>: an exception ends the task), and \<^verbatim>\<open>map\<close> returns the
  results in the order of the items, or raises the exception of the task that failed first.
  Which task that is depends on the scheduling; \<open>finished\<close> lists task indices in the order
  in which the tasks complete (tasks it does not list complete afterwards, in index order).
\<close>

definition chunksize :: "nat \<Rightarrow> nat" where
  "chunksize n =
     (let c = n div (PARALLEL_REQ * 4); extra = n mod (PARALLEL_REQ * 4)
      in if extra \<noteq> 0 then c + 1 else c)"

function get_tasks :: "'a list \<Rightarrow> nat \<Rightarrow> 'a list list" where
  "get_tasks it sz =
     (if take sz it = [] then [] else take sz it # get_tasks (drop sz it) sz)"
  by pat_completeness auto
termination
  by (relation "measure (\<lambda>(it, sz). length it)") auto

fun mapstar :: "('a \<Rightarrow> error + 'b) \<Rightarrow> 'a list \<Rightarrow> error + 'b list" where
  "mapstar f [] = Inr []"
| "mapstar f (x # xs) =
     (case f x of
        Inl e \<Rightarrow> Inl e
      | Inr y \<Rightarrow> (case mapstar f xs of Inl e \<Rightarrow> Inl e | Inr ys \<Rightarrow> Inr (y # ys)))"

fun first_exception :: "(error + 'b) list \<Rightarrow> nat list \<Rightarrow> error option" where
  "first_exception results [] = None"
| "first_exception results (j # js) =
     (if j < length results
      then (case results ! j of Inl e \<Rightarrow> Some e | Inr v \<Rightarrow> first_exception results js)
      else first_exception results js)"

fun values_of :: "(error + 'b list) list \<Rightarrow> 'b list" where
  "values_of [] = []"
| "values_of (Inr ys # rs) = ys @ values_of rs"
| "values_of (Inl e # rs) = values_of rs"

definition pool_map :: "nat list \<Rightarrow> ('a \<Rightarrow> error + 'b) \<Rightarrow> 'a list \<Rightarrow> error + 'b list" where
  "pool_map finished f xs =
     (let results = map (mapstar f) (get_tasks xs (chunksize (length xs)))
      in case first_exception results (finished @ [0..<length results]) of
           Some e \<Rightarrow> Inl e
         | None \<Rightarrow> Inr (values_of results))"

subsection \<open>The crawl and the script\<close>

definition index_url :: string where
  "index_url = BASE_URL @ ''/writeups?tags=pwn&hidden-tags=pwn''"

text \<open>
  \<open>net\<close> is the network as the index request finds it, \<open>workers k i\<close> the network as attempt
  \<open>i\<close> of the row at position \<open>k\<close> finds it. The events returned are those of the calling
  thread; the requests and sleeps of a row are the events of its \<open>extract_info\<close>, on a
  thread of the pool.
\<close>

definition get_all_writetups ::
  "network \<Rightarrow> (nat \<Rightarrow> nat \<Rightarrow> network) \<Rightarrow> nat list \<Rightarrow> event list \<times> (error + RowInformation list)" where
  "get_all_writetups net workers finished =
     (case net index_url of
        RequestFailed \<Rightarrow> ([Get index_url], Inl RequestException)
      | Response r \<Rightarrow>
          (case assert_status_200 (status_code r) of
             Inl e \<Rightarrow> ([Get index_url], Inl e)
           | Inr _ \<Rightarrow>
               (case fromstring (content r) of
                  Inl e \<Rightarrow> ([Get index_url], Inl e)
                | Inr tree \<Rightarrow>
                    (case pool_map finished (\<lambda>(k, row). snd (extract_info (workers k) row))
                            (enumerate 0 (xpath_rows tree)) of
                       Inl e \<Rightarrow> ([Get index_url, LogInfo ''Fetched the write-ups list.''], Inl e)
                     | Inr info \<Rightarrow>
                         ([Get index_url, LogInfo ''Fetched the write-ups list.'',
                           LogInfo ''Retrieved the information for each challenge.''],
                          Inr info)))))"

text \<open>
  The script: \<open>info\<close> is bound only when \<open>get_all_writetups\<close> returns, so it is an option
  here; reading an unbound name raises \<^verbatim>\<open>NameError\<close>. The result is the events of the
  main thread and the exception that ends the script, if one does.
\<close>

definition main :: "network \<Rightarrow> (nat \<Rightarrow> nat \<Rightarrow> network) \<Rightarrow> nat list \<Rightarrow> event list \<times> error option" where
  "main net workers finished =
     (case (case get_all_writetups net workers finished of
              (es, Inr i) \<Rightarrow> (es, Some i, None)
            | (es, Inl (CouldNotFetchInformation msg)) \<Rightarrow>
                (es @ [LogException ''Could not fetch the write-ups.''], None, None)
            | (es, Inl e) \<Rightarrow> (es, None, Some e)) of
        (es, info, Some e) \<Rightarrow> (es, Some e)
      | (es, None, None) \<Rightarrow> (es @ [Print (replicate 100 CHR ''='')], Some NameError)
      | (es, Some i, None) \<Rightarrow> (es @ [Print (replicate 100 CHR ''=''), PPrint i], None))"

section \<open>Observations on traces\<close>

fun is_Get :: "event \<Rightarrow> bool" where
  "is_Get (Get u) = True"
| "is_Get e = False"

fun is_Sleep :: "event \<Rightarrow> bool" where
  "is_Sleep (Sleep i) = True"
| "is_Sleep e = False"

section \<open>The location path, step by step\<close>

text \<open>
  The node-set of \<^verbatim>\<open>//x[...]/m/l\<close> as the XPath steps build it: take every element \<open>d\<close> of
  the document that satisfies the first step, every child \<open>p\<close> of \<open>d\<close> named \<open>m\<close>, every
  child of \<open>p\<close> named \<open>l\<close>. \<open>path3\<close> lists exactly this set (lemma \<open>path3_set\<close> below).
\<close>

definition path3_steps :: "(node \<Rightarrow> bool) \<Rightarrow> string \<Rightarrow> string \<Rightarrow> node \<Rightarrow> node set" where
  "path3_steps F m l n =
     {a. \<exists>d \<in> set (descendant_or_self n). F d \<and>
           (\<exists>p \<in> set (child_elements m d). a \<in> set (child_elements l p))}"

section \<open>The decision rule with the inline link taken from the first paragraph only\<close>

text \<open>
  A second reading of the inline link, following the words "first anchor in the first
  paragraph of the description container": the first \<^verbatim>\<open>p\<close> child of the first
  \<^verbatim>\<open>div\<close> with id \<^verbatim>\<open>id_description\<close>, and the first \<^verbatim>\<open>a\<close> child of that paragraph.
  \<open>claimed_resolve\<close> is the decision rule over this reading; it is compared with
  \<open>get_writeup_url\<close> below.
\<close>

definition claimed_inline_link :: "node \<Rightarrow> node option" where
  "claimed_inline_link tree =
     (case filter (has_id ''div'' ''id_description'') (descendant_or_self tree) of
        [] \<Rightarrow> None
      | d # _ \<Rightarrow>
          (case child_elements ''p'' d of
             [] \<Rightarrow> None
           | p # _ \<Rightarrow> (case child_elements ''a'' p of [] \<Rightarrow> None | a # _ \<Rightarrow> Some a)))"

definition claimed_resolve :: "node \<Rightarrow> string \<Rightarrow> string option" where
  "claimed_resolve tree url =
     (case claimed_inline_link tree of
        Some a \<Rightarrow> get_attribute a ''href''
      | None \<Rightarrow>
          (case xpath_original_writeup tree of
             a # _ \<Rightarrow> get_attribute a ''href''
           | [] \<Rightarrow> Some url))"

section \<open>Example pages and networks\<close>

definition row_A :: node where
  "row_A = Element ''tr'' []
     [Element ''td'' [] [Element ''a'' [(''href'', ''/event/1'')] [Text ''CTF1'']],
      Element ''td'' [] [Element ''a'' [(''href'', ''/task/1'')] [Text ''pwn200'']],
      Element ''td'' [] [Text ''pwn''],
      Element ''td'' [] [Text ''team''],
      Element ''td'' [] [Element ''a'' [(''href'', ''/writeup/1'')] [Text ''read'']]]"

definition row_B :: node where
  "row_B = Element ''tr'' []
     [Element ''td'' [] [Element ''a'' [(''href'', ''/event/2'')] [Text ''CTF2'']],
      Element ''td'' [] [Element ''a'' [(''href'', ''/task/2'')] [Text ''pwn300'']],
      Element ''td'' [] [Text ''pwn''],
      Element ''td'' [] [Text ''team''],
      Element ''td'' [] [Element ''a'' [(''href'', ''/writeup/2'')] [Text ''read'']]]"


definition row_short :: node where
  "row_short = Element ''tr'' []
     [Element ''td'' [] [Element ''a'' [(''href'', ''/event/1'')] [Text ''CTF1'']],
      Element ''td'' [] [Element ''a'' [(''href'', ''/task/1'')] [Text ''pwn200'']],
      Element ''td'' [] [Text ''pwn''],
      Element ''td'' [] [Text ''team'']]"

definition page_inline :: node where
  "page_inline = Element ''html'' [] [Element ''body'' []
     [Element ''div'' [(''id'', ''id_description'')]
        [Element ''p'' []
           [Text ''See '', Element ''a'' [(''href'', ''https://github.com/a/a'')] [Text ''repo'']]],
      Element ''a'' [(''href'', ''https://blog.example/b'')] [Text ''Original writeup'']]]"

definition page_fallback :: node where
  "page_fallback = Element ''html'' [] [Element ''body'' []
     [Element ''div'' [(''id'', ''id_description'')] [Element ''p'' [] [Text ''No link here'']],
      Element ''a'' [(''href'', ''https://blog.example/b'')] [Text ''Original writeup'']]]"

definition page_plain :: node where
  "page_plain = Element ''html'' [] [Element ''body'' []
     [Element ''div'' [(''id'', ''id_description'')] [Element ''p'' [] [Text ''No link here'']],
      Element ''a'' [(''href'', ''/tasks'')] [Text ''All tasks'']]]"

definition page_second_paragraph :: node where
  "page_second_paragraph = Element ''html'' [] [Element ''body'' []
     [Element ''div'' [(''id'', ''id_description'')]
        [Element ''p'' [] [Text ''Intro''],
         Element ''p'' [] [Element ''a'' [(''href'', ''https://github.com/a/a'')] [Text ''repo'']]],
      Element ''a'' [(''href'', ''https://blog.example/b'')] [Text ''Original writeup'']]]"

definition page_empty_href :: node where
  "page_empty_href = Element ''html'' [] [Element ''body'' []
     [Element ''div'' [(''id'', ''id_description'')]
        [Element ''p'' [] [Element ''a'' [(''href'', [])] [Text ''repo'']]]]]"

text \<open>Index pages with one and with two rows.\<close>

definition index_one_row :: node where
  "index_one_row = Element ''html'' [] [Element ''body'' []
     [Element ''table'' [(''id'', ''writeups_table'')] [Element ''tbody'' [] [row_A]]]]"

definition index_two_rows :: node where
  "index_two_rows = Element ''html'' [] [Element ''body'' []
     [Element ''table'' [(''id'', ''writeups_table'')] [Element ''tbody'' [] [row_A, row_B]]]]"


text \<open>A network that answers every request with status 503, one that serves the same page
  for every URL, and a network that stays the same over all attempts.\<close>

definition unavailable :: network where
  "unavailable url = Response \<lparr>status_code = 503, content = None\<rparr>"

definition serving :: "node \<Rightarrow> network" where
  "serving page url = Response \<lparr>status_code = 200, content = Some page\<rparr>"



definition always :: "network \<Rightarrow> nat \<Rightarrow> network" where
  "always net i = net"

text \<open>Three sites. \<open>site_details_down\<close> serves the one-row index and answers 503 for
  everything else; \<open>site_first_down\<close> serves the two-row index, answers 503 for the first
  row's detail page and serves a page with an "Original writeup" anchor otherwise;
  \<open>site_up\<close> serves the two-row index, a page with an inline link for the first row and the
  "Original writeup" page for the second.\<close>

definition site_details_down :: network where
  "site_details_down url =
     (if url = index_url then Response \<lparr>status_code = 200, content = Some index_one_row\<rparr>
      else Response \<lparr>status_code = 503, content = None\<rparr>)"

definition site_first_down :: network where
  "site_first_down url =
     (if url = index_url then Response \<lparr>status_code = 200, content = Some index_two_rows\<rparr>
      else if url = BASE_URL @ ''/writeup/1'' then Response \<lparr>status_code = 503, content = None\<rparr>
      else Response \<lparr>status_code = 200, content = Some page_fallback\<rparr>)"

definition site_up :: network where
  "site_up url =
     (if url = index_url then Response \<lparr>status_code = 200, content = Some index_two_rows\<rparr>
      else if url = BASE_URL @ ''/writeup/1''
      then Response \<lparr>status_code = 200, content = Some page_inline\<rparr>
      else Response \<lparr>status_code = 200, content = Some page_fallback\<rparr>)"

text \<open>\<open>steady net\<close> is the same network for every row and every attempt.\<close>

definition steady :: "network \<Rightarrow> nat \<Rightarrow> nat \<Rightarrow> network" where
  "steady net k i = net"

section \<open>Properties of the queries\<close>

declare retry_loop.simps [simp del] str_nat.simps [simp del] get_tasks.simps [simp del]

lemmas query_defs = xpath_description_def xpath_original_writeup_def has_id_def

lemma path3_steps_Element:
  "path3_steps F m l (Element t as cs) =
     (if F (Element t as cs)
      then (\<Union>p \<in> set (filter (is_element_named m) cs). set (child_elements l p)) else {}) \<union>
     (\<Union>c \<in> set cs. path3_steps F m l c)"
proof -
  have "set (descendant_or_self (Element t as cs)) =
      insert (Element t as cs) (\<Union>c \<in> set cs. set (descendant_or_self c))"
    by simp
  then show ?thesis
    unfolding path3_steps_def by (auto simp del: descendant_or_self.simps)
qed

lemma path3_set:
  "set (path3 F m l it im n) =
     (if im \<and> is_element_named l n then {n} else {}) \<union>
     (if it \<and> is_element_named m n then set (child_elements l n) else {}) \<union>
     path3_steps F m l n"
proof (induction n arbitrary: it im)
  case (Text s)
  show ?case by (simp add: path3_steps_def)
next
  case (Element t as cs)
  let ?e = "Element t as cs"
  have "set (path3 F m l it im ?e) =
      (if im \<and> t = l then {?e} else {}) \<union>
      (\<Union>c \<in> set cs. set (path3 F m l (F ?e) (it \<and> t = m) c))"
    by auto
  also have "(\<Union>c \<in> set cs. set (path3 F m l (F ?e) (it \<and> t = m) c)) =
      (\<Union>c \<in> set cs. (if (it \<and> t = m) \<and> is_element_named l c then {c} else {}) \<union>
     (if F ?e \<and> is_element_named m c then set (child_elements l c) else {}) \<union>
     path3_steps F m l c)"
    using Element.IH by blast
  also have "\<dots> =
      (if it \<and> t = m then set (filter (is_element_named l) cs) else {}) \<union>
      ((if F ?e then (\<Union>p \<in> set (filter (is_element_named m) cs). set (child_elements l p)) else {}) \<union>
      (\<Union>c \<in> set cs. path3_steps F m l c))"
    by (cases "it \<and> t = m"; cases "F ?e") (simp_all add: UN_Un_distrib, blast+)
  finally show ?case
    by (simp add: path3_steps_Element Un_assoc)
qed

lemma xpath_description_set:
  "set (xpath_description tree) = path3_steps (has_id ''div'' ''id_description'') ''p'' ''a'' tree"
  by (simp add: xpath_description_def path3_set)

lemma xpath_rows_set:
  "set (xpath_rows tree) = path3_steps (has_id ''table'' ''writeups_table'') ''tbody'' ''tr'' tree"
  by (simp add: xpath_rows_def path3_set)

section \<open>Properties of one resolution\<close>

lemma str_nat_MAX_RETRIES: "str_nat MAX_RETRIES = ''15''"
  by (simp add: MAX_RETRIES_def digit_char_def str_nat.simps)

lemma fst_get_writeup_url: "fst (get_writeup_url net url) = [Get url]"
  by (simp add: get_writeup_url_def)

lemma get_writeup_url_not_200:
  "net url = Response r \<Longrightarrow> status_code r \<noteq> 200 \<Longrightarrow>
   get_writeup_url net url =
     ([Get url], Inl (CouldNotFetchInformation
        (''Excpected status_code = 200, got '' @ str_int (status_code r))))"
  by (simp add: get_writeup_url_def assert_status_200_def)

lemma get_writeup_url_200:
  "net url = Response r \<Longrightarrow> status_code r = 200 \<Longrightarrow> content r = Some tree \<Longrightarrow>
   get_writeup_url net url =
     ([Get url],
      Inr (case xpath_description tree of
             a # _ \<Rightarrow> get_attribute a ''href''
           | [] \<Rightarrow> (case xpath_original_writeup tree of
                      a # _ \<Rightarrow> get_attribute a ''href''
                    | [] \<Rightarrow> Some url)))"
  by (simp add: get_writeup_url_def assert_status_200_def fromstring_def split: list.splits)

lemma get_writeup_url_success:
  "snd (get_writeup_url net url) = Inr u \<Longrightarrow>
   \<exists>r tree. net url = Response r \<and> status_code r = 200 \<and> content r = Some tree \<and>
     u = (case xpath_description tree of
            a # _ \<Rightarrow> get_attribute a ''href''
          | [] \<Rightarrow> (case xpath_original_writeup tree of
                     a # _ \<Rightarrow> get_attribute a ''href''
                   | [] \<Rightarrow> Some url))"
  by (auto simp add: get_writeup_url_def assert_status_200_def fromstring_def
      split: net_result.splits if_splits option.splits list.splits)

text \<open>One turn of the loop.\<close>

lemma retry_loop_done:
  "\<not> i < MAX_RETRIES \<Longrightarrow>
   retry_loop net c ch l i = ([], Inl (CouldNotFetchInformation (retries_message c ch)))"
  by (simp add: retry_loop.simps [of net c ch l i])

lemma retry_loop_None:
  "i < MAX_RETRIES \<Longrightarrow> retry_loop net c ch None i = ([], Inl TypeError)"
  by (simp add: retry_loop.simps [of net c ch None i])

lemma retry_loop_Some:
  "i < MAX_RETRIES \<Longrightarrow>
   retry_loop net c ch (Some path) i =
     (case snd (get_writeup_url (net i) (BASE_URL @ path)) of
        Inr url \<Rightarrow> ([Get (BASE_URL @ path)], Inr \<lparr>ctf = c, challenge = ch, link = url\<rparr>)
      | Inl (CouldNotFetchInformation msg) \<Rightarrow>
          (Get (BASE_URL @ path) # Sleep i # fst (retry_loop net c ch (Some path) (Suc i)),
           snd (retry_loop net c ch (Some path) (Suc i)))
      | Inl e \<Rightarrow> ([Get (BASE_URL @ path)], Inl e))"
proof -
  obtain r where g: "get_writeup_url (net i) (BASE_URL @ path) = ([Get (BASE_URL @ path)], r)"
    using fst_get_writeup_url [of "net i" "BASE_URL @ path"]
    by (cases "get_writeup_url (net i) (BASE_URL @ path)") simp
  assume "i < MAX_RETRIES"
  then show ?thesis
    by (simp add: retry_loop.simps [of net c ch "Some path" i] g
        split: sum.splits error.splits prod.splits)
qed

lemma retry_loop_all_fail:
  "(\<And>j. i \<le> j \<Longrightarrow> j < MAX_RETRIES \<Longrightarrow>
        \<exists>r. net j (BASE_URL @ path) = Response r \<and> status_code r \<noteq> 200) \<Longrightarrow>
   retry_loop net c ch (Some path) i =
     (concat (map (\<lambda>j. [Get (BASE_URL @ path), Sleep j]) [i..<MAX_RETRIES]),
      Inl (CouldNotFetchInformation (retries_message c ch)))"
proof (induction "MAX_RETRIES - i" arbitrary: i)
  case 0
  then have "\<not> i < MAX_RETRIES" by simp
  then show ?case by (simp add: retry_loop_done)
next
  case (Suc k)
  then have lt: "i < MAX_RETRIES" by simp
  from Suc.prems [OF le_refl lt] obtain r where
    r: "net i (BASE_URL @ path) = Response r" "status_code r \<noteq> 200" by blast
  have "k = MAX_RETRIES - Suc i" using Suc.hyps(2) by simp
  then have rest: "retry_loop net c ch (Some path) (Suc i) =
     (concat (map (\<lambda>j. [Get (BASE_URL @ path), Sleep j]) [Suc i..<MAX_RETRIES]),
      Inl (CouldNotFetchInformation (retries_message c ch)))"
    using Suc.hyps(1) [of "Suc i"] Suc.prems by simp
  have "[i..<MAX_RETRIES] = i # [Suc i..<MAX_RETRIES]"
    using lt by (simp add: upt_conv_Cons)
  then show ?case
    using lt by (simp add: retry_loop_Some
        get_writeup_url_not_200 [of "net i" "BASE_URL @ path" r, OF r] rest)
qed


lemma retry_loop_success:
  "retry_loop net c ch l i = (es, Inr info) \<Longrightarrow>
   ctf info = c \<and> challenge info = ch \<and>
   (\<exists>j path. i \<le> j \<and> j < MAX_RETRIES \<and> l = Some path \<and>
      snd (get_writeup_url (net j) (BASE_URL @ path)) = Inr (link info))"
proof (induction "MAX_RETRIES - i" arbitrary: i es)
  case 0
  then have "\<not> i < MAX_RETRIES" by simp
  with 0 show ?case by (simp add: retry_loop_done)
next
  case (Suc k)
  then have lt: "i < MAX_RETRIES" by simp
  have k: "k = MAX_RETRIES - Suc i" using Suc.hyps(2) by simp
  show ?case
  proof (cases l)
    case None
    then show ?thesis using lt Suc.prems by (simp add: retry_loop_None)
  next
    case (Some path)
    show ?thesis
    proof (cases "snd (get_writeup_url (net i) (BASE_URL @ path))")
      case (Inr url)
      then have "info = \<lparr>ctf = c, challenge = ch, link = url\<rparr>"
        using lt Some Suc.prems by (simp add: retry_loop_Some)
      then show ?thesis using lt Some Inr by auto
    next
      case (Inl e)
      show ?thesis
      proof (cases e)
        case (CouldNotFetchInformation msg)
        then have "retry_loop net c ch l (Suc i) = (fst (retry_loop net c ch l (Suc i)), Inr info)"
          using lt Some Inl Suc.prems by (simp add: retry_loop_Some prod_eq_iff)
        from Suc.hyps(1) [OF k this] show ?thesis
          using Suc_leD by blast
      qed (use lt Some Inl Suc.prems in \<open>simp_all add: retry_loop_Some\<close>)
    qed
  qed
qed


lemma filter_is_Sleep_attempts:
  "filter is_Sleep (concat (map (\<lambda>j. [Get u, Sleep j]) js)) = map Sleep js"
  by (induction js) simp_all

lemma last_attempts:
  "0 < n \<Longrightarrow> last (concat (map (\<lambda>i. [Get u, Sleep i]) [0..<n])) = Sleep (n - 1)"
  by (cases n) simp_all

lemma extract_info_rows:
  "xpath_td_a_text 1 row = c # cs \<Longrightarrow> xpath_td_a_text 2 row = ch # chs \<Longrightarrow>
   xpath_td_a 5 row = a # as \<Longrightarrow>
   extract_info net row = retry_loop net c ch (get_attribute a ''href'') 0"
  by (simp add: extract_info_def item0_def)


lemma extract_info_all_fail:
  assumes "xpath_td_a_text 1 row = c # cs" and "xpath_td_a_text 2 row = ch # chs"
    and "xpath_td_a 5 row = a # as" and "get_attribute a ''href'' = Some path"
    and "\<forall>i<MAX_RETRIES. \<exists>r. net i (BASE_URL @ path) = Response r \<and> status_code r \<noteq> 200"
  shows "extract_info net row =
     (concat (map (\<lambda>j. [Get (BASE_URL @ path), Sleep j]) [0..<MAX_RETRIES]),
      Inl (CouldNotFetchInformation (retries_message c ch)))"
  using assms retry_loop_all_fail [of 0 net path c ch]
  by (simp add: extract_info_rows [OF assms(1-3)])

text \<open>The example row and its queries.\<close>

lemma row_A_labels:
  "xpath_td_a_text 1 row_A = [''CTF1'']" "xpath_td_a_text 2 row_A = [''pwn200'']"
  by (simp_all add: row_A_def xpath_td_a_text_def xpath_td_a_def td_def)

lemma row_A_anchor:
  "xpath_td_a 5 row_A = [Element ''a'' [(''href'', ''/writeup/1'')] [Text ''read'']]"
  by (simp add: row_A_def xpath_td_a_def td_def)

lemma row_A_href:
  "get_attribute (Element ''a'' [(''href'', ''/writeup/1'')] [Text ''read'']) ''href'' =
     Some ''/writeup/1''"
  by simp

lemma always_unavailable:
  "\<forall>i<MAX_RETRIES. \<exists>r. always unavailable i url = Response r \<and> status_code r \<noteq> 200"
  by (simp add: always_def unavailable_def)

section \<open>Properties of the pool and the crawl\<close>

lemma chunksize_pos: "0 < n \<Longrightarrow> 0 < chunksize n"
  by (auto simp add: chunksize_def Let_def PARALLEL_REQ_def)

lemma concat_get_tasks: "0 < n \<or> xs = [] \<Longrightarrow> concat (get_tasks xs n) = xs"
proof (induction xs n rule: get_tasks.induct)
  case (1 it sz)
  show ?case
  proof (cases "take sz it = []")
    case True
    then have "it = []" using "1.prems" by auto
    then show ?thesis by (simp add: get_tasks.simps [of "[]" sz])
  next
    case False
    then have "0 < sz" by (cases sz) auto
    then have "concat (get_tasks (drop sz it) sz) = drop sz it"
      using "1.IH" [OF False] by simp
    then show ?thesis
      using False by (simp add: get_tasks.simps [of it sz])
  qed
qed

lemma mapstar_Inr: "(mapstar f xs = Inr ys) = (map f xs = map Inr ys)"
proof (induction xs arbitrary: ys)
  case Nil
  show ?case by auto
next
  case (Cons x xs)
  show ?case
  proof (cases "f x")
    case (Inl e)
    then show ?thesis by (cases ys) auto
  next
    case fx: (Inr y)
    show ?thesis
    proof (cases "mapstar f xs")
      case (Inl e)
      then have "\<And>zs. map f xs \<noteq> map Inr zs"
        using Cons.IH by (metis sum.distinct(1))
      then show ?thesis using fx Inl by (cases ys) auto
    next
      case (Inr zs)
      then have "map f xs = map Inr zs" using Cons.IH by simp
      then show ?thesis using fx Inr by (cases ys) (auto simp add: inj_map_eq_map)
    qed
  qed
qed

lemma mapstar_Inl: "mapstar f xs = Inl e \<Longrightarrow> \<exists>x \<in> set xs. f x = Inl e"
  by (induction xs) (auto split: sum.splits)

lemma first_exception_None:
  "(first_exception results js = None) =
     (\<forall>j \<in> set js. j < length results \<longrightarrow> \<not> isl (results ! j))"
  by (induction js) (auto split: sum.splits)

lemma first_exception_Some:
  "first_exception results js = Some e \<Longrightarrow> Inl e \<in> set results"
  by (induction js) (auto split: sum.splits if_splits dest: nth_mem)

lemma values_of_map_Inr: "values_of (map Inr yss) = concat yss"
  by (induction yss) simp_all

lemma mapstar_chunks_Inr:
  "(\<forall>r \<in> set (map (mapstar f) cs). \<not> isl r) \<Longrightarrow>
   map f (concat cs) = map Inr (values_of (map (mapstar f) cs))"
proof (induction cs)
  case Nil
  show ?case by simp
next
  case (Cons c cs)
  then obtain ys where ys: "mapstar f c = Inr ys"
    by (cases "mapstar f c") auto
  then have "map f c = map Inr ys" by (simp add: mapstar_Inr)
  then show ?case using Cons ys by simp
qed

lemma pool_map_Inr:
  "(pool_map finished f xs = Inr ys) = (map f xs = map Inr ys)"
proof -
  let ?cs = "get_tasks xs (chunksize (length xs))"
  let ?results = "map (mapstar f) ?cs"
  have cs: "concat ?cs = xs"
    by (rule concat_get_tasks) (cases xs; simp add: chunksize_pos)
  show ?thesis
  proof
    assume "pool_map finished f xs = Inr ys"
    then have none: "first_exception ?results (finished @ [0..<length ?results]) = None"
      and ys: "ys = values_of ?results"
      by (auto simp add: pool_map_def Let_def split: option.splits)
    have "\<forall>r \<in> set ?results. \<not> isl r"
    proof
      fix r assume "r \<in> set ?results"
      then obtain j where "j < length ?results" "?results ! j = r"
        by (auto simp add: in_set_conv_nth)
      then show "\<not> isl r"
        using none unfolding first_exception_None by auto
    qed
    then show "map f xs = map Inr ys"
      using mapstar_chunks_Inr [of f ?cs] cs ys by simp
  next
    assume all: "map f xs = map Inr ys"
    have ok: "\<forall>r \<in> set ?results. \<not> isl r"
    proof
      fix r assume "r \<in> set ?results"
      then obtain c where c: "c \<in> set ?cs" "r = mapstar f c" by auto
      show "\<not> isl r"
      proof
        assume "isl r"
        then obtain e where "mapstar f c = Inl e" using c by (cases "mapstar f c") auto
        then obtain x where "x \<in> set c" "f x = Inl e" using mapstar_Inl by blast
        moreover have "x \<in> set xs" using \<open>x \<in> set c\<close> c(1) cs by (metis UN_I set_concat)
        ultimately have "Inl e \<in> set (map f xs)" by force
        then show False using all by auto
      qed
    qed
    then have "first_exception ?results (finished @ [0..<length ?results]) = None"
      unfolding first_exception_None by auto
    then have "pool_map finished f xs = Inr (values_of ?results)"
      by (simp add: pool_map_def Let_def)
    moreover have "map Inr (values_of ?results) = map Inr ys"
      using mapstar_chunks_Inr [OF ok] cs all by simp
    then have "values_of ?results = ys"
      by (simp add: inj_map_eq_map)
    ultimately show "pool_map finished f xs = Inr ys" by simp
  qed
qed

lemma pool_map_Inl:
  "pool_map finished f xs = Inl e \<Longrightarrow> \<exists>x \<in> set xs. f x = Inl e"
proof -
  let ?cs = "get_tasks xs (chunksize (length xs))"
  let ?results = "map (mapstar f) ?cs"
  have cs: "concat ?cs = xs"
    by (rule concat_get_tasks) (cases xs; simp add: chunksize_pos)
  assume "pool_map finished f xs = Inl e"
  then have "first_exception ?results (finished @ [0..<length ?results]) = Some e"
    by (auto simp add: pool_map_def Let_def split: option.splits)
  then have "Inl e \<in> set ?results" by (rule first_exception_Some)
  then obtain c where c: "c \<in> set ?cs" "mapstar f c = Inl e" by auto
  then obtain x where "x \<in> set c" "f x = Inl e" using mapstar_Inl by blast
  moreover have "x \<in> set xs" using \<open>x \<in> set c\<close> c(1) cs by (metis UN_I set_concat)
  ultimately show ?thesis by blast
qed

lemma map_enumerate:
  "map (\<lambda>(k, row). g k row) (enumerate 0 rows) = map (\<lambda>k. g k (rows ! k)) [0..<length rows]"
  by (rule nth_equalityI) (simp_all add: nth_enumerate_eq)

lemma map_upt_eq_map_Inr:
  "(map g [0..<n] = map Inr ys) = (length ys = n \<and> (\<forall>k<n. g k = Inr (ys ! k)))"
  by (subst list_eq_iff_nth_eq) auto

lemma gets_get_all_writetups:
  "filter is_Get (fst (get_all_writetups net workers finished)) = [Get index_url]"
  by (simp add: get_all_writetups_def split: net_result.splits sum.splits)

lemma get_all_writetups_index_ok:
  assumes "net index_url = Response r" and "status_code r = 200" and "content r = Some tree"
  shows "snd (get_all_writetups net workers finished) =
     pool_map finished (\<lambda>(k, row). snd (extract_info (workers k) row))
       (enumerate 0 (xpath_rows tree))"
proof (cases "pool_map finished (\<lambda>(k, row). snd (extract_info (workers k) row))
       (enumerate 0 (xpath_rows tree))")
  case (Inl e)
  then show ?thesis
    unfolding get_all_writetups_def
    by (simp only: assms net_result.case assert_status_200_def fromstring_def if_False
        simp_thms sum.case option.case snd_conv)
next
  case (Inr info)
  then show ?thesis
    unfolding get_all_writetups_def
    by (simp only: assms net_result.case assert_status_200_def fromstring_def if_False
        simp_thms sum.case option.case snd_conv)
qed

lemma get_all_writetups_Inr:
  assumes "net index_url = Response r" and "status_code r = 200" and "content r = Some tree"
  shows "(snd (get_all_writetups net workers finished) = Inr info) =
     (length info = length (xpath_rows tree) \<and>
      (\<forall>k<length (xpath_rows tree).
         snd (extract_info (workers k) (xpath_rows tree ! k)) = Inr (info ! k)))"
  unfolding get_all_writetups_index_ok [where net = net, OF assms] pool_map_Inr map_enumerate
  by (rule map_upt_eq_map_Inr)

lemma get_all_writetups_Inl:
  assumes "net index_url = Response r" and "status_code r = 200" and "content r = Some tree"
    and "snd (get_all_writetups net workers finished) = Inl e"
  shows "\<exists>k<length (xpath_rows tree).
     snd (extract_info (workers k) (xpath_rows tree ! k)) = Inl e"
proof -
  from assms(4) have "pool_map finished (\<lambda>(k, row). snd (extract_info (workers k) row))
       (enumerate 0 (xpath_rows tree)) = Inl e"
    unfolding get_all_writetups_index_ok [where net = net, OF assms(1-3)] .
  then obtain x where x: "x \<in> set (enumerate 0 (xpath_rows tree))"
    "(\<lambda>(k, row). snd (extract_info (workers k) row)) x = Inl e"
    using pool_map_Inl by blast
  obtain k row where kr: "x = (k, row)" by (cases x)
  from x(1) have "k < length (xpath_rows tree)" "xpath_rows tree ! k = row"
    unfolding kr in_set_enumerate_eq by simp_all
  moreover from x(2) have "snd (extract_info (workers k) row) = Inl e"
    unfolding kr by simp
  ultimately show ?thesis by blast
qed

lemma extract_info_success:
  assumes "extract_info net row = (es, Inr info)"
  shows "item0 (xpath_td_a_text 1 row) = Inr (ctf info) \<and>
         item0 (xpath_td_a_text 2 row) = Inr (challenge info) \<and>
         (\<exists>a path i. item0 (xpath_td_a 5 row) = Inr a \<and> get_attribute a ''href'' = Some path \<and>
            i < MAX_RETRIES \<and>
            snd (get_writeup_url (net i) (BASE_URL @ path)) = Inr (link info))"
proof -
  from assms obtain c ch a where q: "item0 (xpath_td_a_text 1 row) = Inr c"
    "item0 (xpath_td_a_text 2 row) = Inr ch" "item0 (xpath_td_a 5 row) = Inr a"
    and loop: "retry_loop net c ch (get_attribute a ''href'') 0 = (es, Inr info)"
    by (auto simp add: extract_info_def split: sum.splits)
  from retry_loop_success [OF loop] q show ?thesis by auto
qed

lemma xpath_rows_index_one_row: "xpath_rows index_one_row = [row_A]"
  by (simp add: index_one_row_def xpath_rows_def has_id_def row_A_def)

lemma xpath_rows_index_two_rows: "xpath_rows index_two_rows = [row_A, row_B]"
  by (simp add: index_two_rows_def xpath_rows_def has_id_def row_A_def row_B_def)

lemma not_index_url:
  "BASE_URL @ ''/writeup/1'' \<noteq> index_url" "BASE_URL @ ''/writeup/2'' \<noteq> index_url"
  "BASE_URL @ ''/writeup/2'' \<noteq> BASE_URL @ ''/writeup/1''"
  by (simp_all add: index_url_def)

lemma extract_info_row_A_down:
  "extract_info (always site_details_down) row_A =
     (concat (map (\<lambda>j. [Get (BASE_URL @ ''/writeup/1''), Sleep j]) [0..<MAX_RETRIES]),
      Inl (CouldNotFetchInformation (retries_message ''CTF1'' ''pwn200'')))"
  by (rule extract_info_all_fail [OF row_A_labels row_A_anchor row_A_href])
    (simp add: always_def site_details_down_def not_index_url)

lemma first_exception_single:
  "first_exception [r] (js @ [0]) = (case r of Inl e \<Rightarrow> Some e | Inr v \<Rightarrow> None)"
  by (induction js) (auto split: sum.splits)

lemma pool_map_singleton: "pool_map finished f [x] = map_sum id (\<lambda>y. [y]) (f x)"
  by (cases "f x")
    (simp_all add: pool_map_def chunksize_def PARALLEL_REQ_def get_tasks.simps
      first_exception_single Let_def)

lemma extract_info_first_attempt:
  assumes "xpath_td_a_text 1 row = c # cs" and "xpath_td_a_text 2 row = ch # chs"
    and "xpath_td_a 5 row = a # as" and "get_attribute a ''href'' = Some path"
    and "net 0 (BASE_URL @ path) = Response r" and "status_code r = 200"
    and "content r = Some tree"
  shows "extract_info net row =
     ([Get (BASE_URL @ path)],
      Inr \<lparr>ctf = c, challenge = ch,
           link = (case xpath_description tree of
                     x # _ \<Rightarrow> get_attribute x ''href''
                   | [] \<Rightarrow> (case xpath_original_writeup tree of
                              x # _ \<Rightarrow> get_attribute x ''href''
                            | [] \<Rightarrow> Some (BASE_URL @ path)))\<rparr>)"
proof -
  have "0 < MAX_RETRIES" by (simp add: MAX_RETRIES_def)
  then show ?thesis
    by (simp add: extract_info_rows [OF assms(1-3)] assms(4) retry_loop_Some
        get_writeup_url_200 [where net = "net 0", OF assms(5-7)])
qed

lemma row_B_queries:
  "xpath_td_a_text 1 row_B = [''CTF2'']" "xpath_td_a_text 2 row_B = [''pwn300'']"
  "xpath_td_a 5 row_B = [Element ''a'' [(''href'', ''/writeup/2'')] [Text ''read'']]"
  by (simp_all add: row_B_def xpath_td_a_text_def xpath_td_a_def td_def)

lemma row_B_href:
  "get_attribute (Element ''a'' [(''href'', ''/writeup/2'')] [Text ''read'']) ''href'' =
     Some ''/writeup/2''"
  by simp

lemma page_inline_queries:
  "xpath_description page_inline =
     [Element ''a'' [(''href'', ''https://github.com/a/a'')] [Text ''repo'']]"
  by (simp add: page_inline_def query_defs)

lemma page_fallback_queries:
  "xpath_description page_fallback = []"
  "xpath_original_writeup page_fallback =
     [Element ''a'' [(''href'', ''https://blog.example/b'')] [Text ''Original writeup'']]"
  by (simp_all add: page_fallback_def query_defs)

lemma page_plain_queries:
  "xpath_description page_plain = []" "xpath_original_writeup page_plain = []"
  by (simp_all add: page_plain_def query_defs)

lemma page_empty_href_queries:
  "xpath_description page_empty_href = [Element ''a'' [(''href'', [])] [Text ''repo'']]"
  by (simp add: page_empty_href_def query_defs)

lemma extract_info_row_B_fallback:
  assumes "net 0 (BASE_URL @ ''/writeup/2'') =
      Response \<lparr>status_code = 200, content = Some page_fallback\<rparr>"
  shows "extract_info net row_B =
     ([Get (BASE_URL @ ''/writeup/2'')],
      Inr \<lparr>ctf = ''CTF2'', challenge = ''pwn300'', link = Some ''https://blog.example/b''\<rparr>)"
  using extract_info_first_attempt [where net = net, OF row_B_queries row_B_href assms]
  by (simp add: page_fallback_queries)

lemma extract_info_row_A_inline:
  assumes "net 0 (BASE_URL @ ''/writeup/1'') =
      Response \<lparr>status_code = 200, content = Some page_inline\<rparr>"
  shows "extract_info net row_A =
     ([Get (BASE_URL @ ''/writeup/1'')],
      Inr \<lparr>ctf = ''CTF1'', challenge = ''pwn200'', link = Some ''https://github.com/a/a''\<rparr>)"
  using extract_info_first_attempt [where net = net, OF row_A_labels row_A_anchor row_A_href assms]
  by (simp add: page_inline_queries)

lemma extract_info_row_A_first_down:
  "extract_info (steady site_first_down k) row_A =
     (concat (map (\<lambda>j. [Get (BASE_URL @ ''/writeup/1''), Sleep j]) [0..<MAX_RETRIES]),
      Inl (CouldNotFetchInformation
        ''Could not fetch write-up URL (CTF1 - pwn200) information after 15 retries.''))"
  using extract_info_all_fail [where net = "steady site_first_down k",
      OF row_A_labels row_A_anchor row_A_href]
  by (simp add: steady_def site_first_down_def not_index_url retries_message_def
      str_nat_MAX_RETRIES)

lemma no_PPrint_crawl: "PPrint info \<notin> set (fst (get_all_writetups net workers finished))"
  by (simp add: get_all_writetups_def split: net_result.splits sum.splits)

lemma main_crawl_failed:
  assumes "snd (get_all_writetups net workers finished) = Inl e"
  shows "PPrint info \<notin> set (fst (main net workers finished))"
proof -
  obtain es where g: "get_all_writetups net workers finished = (es, Inl e)"
    using assms by (cases "get_all_writetups net workers finished") simp
  then have "PPrint info \<notin> set es"
    using no_PPrint_crawl [of info net workers finished] by simp
  then show ?thesis
    by (cases e) (simp_all add: main_def g)
qed

lemma crawl_site_details_down:
  "get_all_writetups site_details_down (steady site_details_down) [] =
     ([Get index_url, LogInfo ''Fetched the write-ups list.''],
      Inl (CouldNotFetchInformation
        ''Could not fetch write-up URL (CTF1 - pwn200) information after 15 retries.''))"
proof -
  have "steady site_details_down 0 = always site_details_down"
    by (simp add: steady_def always_def fun_eq_iff)
  then show ?thesis
    by (simp add: get_all_writetups_def site_details_down_def [of index_url]
        assert_status_200_def fromstring_def xpath_rows_index_one_row
        pool_map_singleton extract_info_row_A_down retries_message_def str_nat_MAX_RETRIES)
qed


section \<open>Properties of the rounding and of the delay\<close>







lemma pow2_nonneg [simp]: "0 \<le> pow2 e"
  by (simp add: pow2_def)


lemma pow2_nat: "pow2 (int n) = 2 ^ n"
  by (simp add: pow2_def powr_realpow)










lemma fl_0 [simp]: "fl 0 = 0"
  by (simp add: fl_def)



lemma pow2_neq_0 [simp]: "pow2 e \<noteq> 0"
  by (simp add: pow2_def)


lemma pow2_0 [simp]: "pow2 0 = 1"
  by (simp add: pow2_def)












lemma pow2_1 [simp]: "pow2 1 = 2"
  using pow2_nat [of 1] by simp





section \<open>The claims\<close>

text \<open>
  C1, as stated, at a page whose first paragraph has no anchor while the second has one:
  the first-paragraph reading finds no inline link and resolves to the "Original writeup"
  anchor, \<open>get_writeup_url\<close> returns the anchor of the second paragraph.
\<close>

theorem resolve_first_paragraph_counterexample:
  "claimed_inline_link page_second_paragraph = None \<and>
   claimed_resolve page_second_paragraph ''https://ctftime.org/writeup/1'' =
     Some ''https://blog.example/b'' \<and>
   snd (get_writeup_url (serving page_second_paragraph) ''https://ctftime.org/writeup/1'') =
     Inr (Some ''https://github.com/a/a'')"
  by (simp add: claimed_resolve_def claimed_inline_link_def page_second_paragraph_def
      get_writeup_url_def serving_def assert_status_200_def fromstring_def query_defs)

text \<open>
  C1 (amended). For a detail page fetched with status 200, \<open>get_writeup_url\<close> follows the
  strict priority order: if the query \<^verbatim>\<open>//div[@id='id_description']/p/a\<close> selects anything
  (an \<^verbatim>\<open>a\<close> child of any \<^verbatim>\<open>p\<close> child of a \<^verbatim>\<open>div\<close> with that id, not only of the first
  paragraph), the result is the \<^verbatim>\<open>href\<close> attribute of the first selected anchor; otherwise,
  if an \<^verbatim>\<open>a\<close> element with a text child equal to "Original writeup" exists, the result is
  the \<^verbatim>\<open>href\<close> attribute of the first one; otherwise it is the URL that was passed in.
\<close>

theorem resolve_priority:
  assumes "net url = Response r" and "status_code r = 200" and "content r = Some tree"
  shows "(\<forall>a as. xpath_description tree = a # as \<longrightarrow>
            snd (get_writeup_url net url) = Inr (get_attribute a ''href'')) \<and>
         (\<forall>a as. xpath_description tree = [] \<and> xpath_original_writeup tree = a # as \<longrightarrow>
            snd (get_writeup_url net url) = Inr (get_attribute a ''href'')) \<and>
         (xpath_description tree = [] \<and> xpath_original_writeup tree = [] \<longrightarrow>
            snd (get_writeup_url net url) = Inr (Some url)) \<and>
         set (xpath_description tree) =
           {a. \<exists>d \<in> set (descendant_or_self tree). has_id ''div'' ''id_description'' d \<and>
                 (\<exists>p \<in> set (child_elements ''p'' d). a \<in> set (child_elements ''a'' p))}"
  by (simp add: get_writeup_url_200 [where net = net, OF assms] xpath_description_set
      path3_steps_def)

theorem resolve_priority_witness:
  "snd (get_writeup_url (serving page_inline) ''https://ctftime.org/writeup/1'') =
     Inr (Some ''https://github.com/a/a'') \<and>
   snd (get_writeup_url (serving page_fallback) ''https://ctftime.org/writeup/2'') =
     Inr (Some ''https://blog.example/b'') \<and>
   snd (get_writeup_url (serving page_plain) ''https://ctftime.org/writeup/3'') =
     Inr (Some ''https://ctftime.org/writeup/3'')"
proof -
  have 1: "xpath_description page_inline =
      [Element ''a'' [(''href'', ''https://github.com/a/a'')] [Text ''repo'']]"
    by (simp add: page_inline_def query_defs)
  have 2: "xpath_description page_fallback = [] \<and> xpath_original_writeup page_fallback =
      [Element ''a'' [(''href'', ''https://blog.example/b'')] [Text ''Original writeup'']]"
    by (simp add: page_fallback_def query_defs)
  have 3: "xpath_description page_plain = [] \<and> xpath_original_writeup page_plain = []"
    by (simp add: page_plain_def query_defs)
  have a: "snd (get_writeup_url (serving page_inline) ''https://ctftime.org/writeup/1'') =
      Inr (Some ''https://github.com/a/a'')"
    using resolve_priority [of "serving page_inline" "''https://ctftime.org/writeup/1''"
        "\<lparr>status_code = 200, content = Some page_inline\<rparr>" page_inline] 1
    by (simp add: serving_def)
  have b: "snd (get_writeup_url (serving page_fallback) ''https://ctftime.org/writeup/2'') =
      Inr (Some ''https://blog.example/b'')"
    using resolve_priority [of "serving page_fallback" "''https://ctftime.org/writeup/2''"
        "\<lparr>status_code = 200, content = Some page_fallback\<rparr>" page_fallback] 2
    by (simp add: serving_def)
  have c: "snd (get_writeup_url (serving page_plain) ''https://ctftime.org/writeup/3'') =
      Inr (Some ''https://ctftime.org/writeup/3'')"
    using resolve_priority [of "serving page_plain" "''https://ctftime.org/writeup/3''"
        "\<lparr>status_code = 200, content = Some page_plain\<rparr>" page_plain] 3
    by (simp add: serving_def)
  show ?thesis using a b c by simp
qed




text \<open>
  C3, as stated, at an index page with one row whose detail page answers 503 on every
  attempt: one row is extracted, and the crawl returns no outcome at all, it raises the
  row's \<open>CouldNotFetchInformation\<close>.
\<close>

theorem crawl_one_row_down_counterexample:
  "length (xpath_rows index_one_row) = 1 \<and>
   get_all_writetups site_details_down (steady site_details_down) [] =
     ([Get index_url, LogInfo ''Fetched the write-ups list.''],
      Inl (CouldNotFetchInformation
        ''Could not fetch write-up URL (CTF1 - pwn200) information after 15 retries.''))"
  by (simp add: xpath_rows_index_one_row crawl_site_details_down)

text \<open>
  C3 (amended). For an index page fetched with status 200 from which R rows are extracted,
  \<open>get_all_writetups\<close> sends exactly one index request. It returns a list exactly when
  every row's \<open>extract_info\<close> returns: the list then has exactly R records in row order,
  and record \<open>k\<close> is the record of row \<open>k\<close>, with that row's column-1 anchor text, its
  column-2 anchor text and the URL that \<open>get_writeup_url\<close> resolved for its detail page.
  When some row's \<open>extract_info\<close> raises, the crawl returns no outcome for any row: it
  raises the exception of one of the rows that failed.
\<close>

theorem crawl_returns_all_rows_or_raises:
  assumes "net index_url = Response r" and "status_code r = 200" and "content r = Some tree"
  shows "filter is_Get (fst (get_all_writetups net workers finished)) = [Get index_url] \<and>
    (\<forall>info. (snd (get_all_writetups net workers finished) = Inr info) =
       (length info = length (xpath_rows tree) \<and>
        (\<forall>k<length (xpath_rows tree).
           snd (extract_info (workers k) (xpath_rows tree ! k)) = Inr (info ! k)))) \<and>
    (\<forall>info k. snd (get_all_writetups net workers finished) = Inr info \<and>
         k < length (xpath_rows tree) \<longrightarrow>
       item0 (xpath_td_a_text 1 (xpath_rows tree ! k)) = Inr (ctf (info ! k)) \<and>
       item0 (xpath_td_a_text 2 (xpath_rows tree ! k)) = Inr (challenge (info ! k)) \<and>
       (\<exists>a path i. item0 (xpath_td_a 5 (xpath_rows tree ! k)) = Inr a \<and>
          get_attribute a ''href'' = Some path \<and> i < MAX_RETRIES \<and>
          snd (get_writeup_url (workers k i) (BASE_URL @ path)) = Inr (link (info ! k)))) \<and>
    (\<forall>e. snd (get_all_writetups net workers finished) = Inl e \<longrightarrow>
       (\<exists>k<length (xpath_rows tree).
          snd (extract_info (workers k) (xpath_rows tree ! k)) = Inl e))"
proof -
  note iff = get_all_writetups_Inr [where net = net and workers = workers
      and finished = finished, OF assms]
  have labels: "item0 (xpath_td_a_text 1 (xpath_rows tree ! k)) = Inr (ctf (info ! k)) \<and>
       item0 (xpath_td_a_text 2 (xpath_rows tree ! k)) = Inr (challenge (info ! k)) \<and>
       (\<exists>a path i. item0 (xpath_td_a 5 (xpath_rows tree ! k)) = Inr a \<and>
          get_attribute a ''href'' = Some path \<and> i < MAX_RETRIES \<and>
          snd (get_writeup_url (workers k i) (BASE_URL @ path)) = Inr (link (info ! k)))"
    if "snd (get_all_writetups net workers finished) = Inr info"
      and "k < length (xpath_rows tree)" for info k
  proof -
    from that have "snd (extract_info (workers k) (xpath_rows tree ! k)) = Inr (info ! k)"
      unfolding iff by simp
    then have "extract_info (workers k) (xpath_rows tree ! k) =
        (fst (extract_info (workers k) (xpath_rows tree ! k)), Inr (info ! k))"
      by (simp add: prod_eq_iff)
    then show ?thesis by (rule extract_info_success)
  qed
  show ?thesis
    using iff labels get_all_writetups_Inl [where net = net and workers = workers
      and finished = finished, OF assms]
    by (simp add: gets_get_all_writetups)
qed

theorem crawl_returns_all_rows_or_raises_witness:
  "filter is_Get (fst (get_all_writetups site_up (steady site_up) [])) = [Get index_url] \<and>
   snd (get_all_writetups site_up (steady site_up) []) =
     Inr [\<lparr>ctf = ''CTF1'', challenge = ''pwn200'', link = Some ''https://github.com/a/a''\<rparr>,
          \<lparr>ctf = ''CTF2'', challenge = ''pwn300'', link = Some ''https://blog.example/b''\<rparr>]"
proof -
  let ?info = "[\<lparr>ctf = ''CTF1'', challenge = ''pwn200'', link = Some ''https://github.com/a/a''\<rparr>,
          \<lparr>ctf = ''CTF2'', challenge = ''pwn300'', link = Some ''https://blog.example/b''\<rparr>]"
  have idx: "site_up index_url = Response \<lparr>status_code = 200, content = Some index_two_rows\<rparr>"
    by (simp add: site_up_def)
  note t = crawl_returns_all_rows_or_raises [where net = site_up
      and workers = "steady site_up" and finished = "[]" and tree = index_two_rows, OF idx]
  have a: "snd (extract_info (steady site_up 0) row_A) = Inr (?info ! 0)"
    by (simp add: extract_info_row_A_inline steady_def site_up_def not_index_url)
  have b: "snd (extract_info (steady site_up 1) row_B) = Inr (?info ! 1)"
    by (simp add: extract_info_row_B_fallback steady_def site_up_def not_index_url)
  have "\<forall>k<length (xpath_rows index_two_rows).
      snd (extract_info (steady site_up k) (xpath_rows index_two_rows ! k)) = Inr (?info ! k)"
    using a b by (auto simp add: xpath_rows_index_two_rows less_Suc_eq)
  then have "snd (get_all_writetups site_up (steady site_up) []) = Inr ?info"
    using t by (simp add: xpath_rows_index_two_rows)
  then show ?thesis using t by simp
qed

text \<open>
  C4, as stated, at a detail page whose inline anchor has an empty \<^verbatim>\<open>href\<close>: the
  resolution succeeds and the record's URL is the empty string.
\<close>

theorem resolved_url_empty_href_counterexample:
  "extract_info (always (serving page_empty_href)) row_A =
     ([Get (BASE_URL @ ''/writeup/1'')],
      Inr \<lparr>ctf = ''CTF1'', challenge = ''pwn200'', link = Some ''''\<rparr>)"
proof -
  have "always (serving page_empty_href) 0 (BASE_URL @ ''/writeup/1'') =
      Response \<lparr>status_code = 200, content = Some page_empty_href\<rparr>"
    by (simp add: always_def serving_def)
  from extract_info_first_attempt [where net = "always (serving page_empty_href)",
      OF row_A_labels row_A_anchor row_A_href this]
  show ?thesis by (simp add: page_empty_href_queries)
qed

text \<open>
  C4 (amended). Every successful resolution took its URL from a detail page that was
  fetched with status 200 in one of the 15 attempts. When neither query selects an anchor
  on that page, the record's URL is the detail URL \<open>BASE_URL + link\<close>, a non-empty string.
  When an anchor is selected, the record's URL is that anchor's \<^verbatim>\<open>href\<close> attribute as it
  is: nothing makes it non-empty, and it is \<open>None\<close> when the anchor has no such attribute.
\<close>

theorem resolved_url_of_successful_resolution:
  assumes "extract_info net row = (es, Inr info)"
  shows "\<exists>a path i r tree.
     item0 (xpath_td_a 5 row) = Inr a \<and> get_attribute a ''href'' = Some path \<and>
     i < MAX_RETRIES \<and> net i (BASE_URL @ path) = Response r \<and> status_code r = 200 \<and>
     content r = Some tree \<and>
     (xpath_description tree = [] \<and> xpath_original_writeup tree = [] \<longrightarrow>
        link info = Some (BASE_URL @ path) \<and> BASE_URL @ path \<noteq> []) \<and>
     (\<forall>x xs. xpath_description tree = x # xs \<longrightarrow> link info = get_attribute x ''href'') \<and>
     (\<forall>x xs. xpath_description tree = [] \<and> xpath_original_writeup tree = x # xs \<longrightarrow>
        link info = get_attribute x ''href'')"
proof -
  from extract_info_success [OF assms] obtain a path i where
    a: "item0 (xpath_td_a 5 row) = Inr a" "get_attribute a ''href'' = Some path"
      "i < MAX_RETRIES"
    and u: "snd (get_writeup_url (net i) (BASE_URL @ path)) = Inr (link info)"
    by blast
  from get_writeup_url_success [OF u] obtain r tree where
    r: "net i (BASE_URL @ path) = Response r" "status_code r = 200" "content r = Some tree"
    and l: "link info = (case xpath_description tree of
            x # _ \<Rightarrow> get_attribute x ''href''
          | [] \<Rightarrow> (case xpath_original_writeup tree of
                     x # _ \<Rightarrow> get_attribute x ''href''
                   | [] \<Rightarrow> Some (BASE_URL @ path)))"
    by blast
  have "BASE_URL @ path \<noteq> []" by (simp add: BASE_URL_def)
  then have "(xpath_description tree = [] \<and> xpath_original_writeup tree = [] \<longrightarrow>
        link info = Some (BASE_URL @ path) \<and> BASE_URL @ path \<noteq> []) \<and>
     (\<forall>x xs. xpath_description tree = x # xs \<longrightarrow> link info = get_attribute x ''href'') \<and>
     (\<forall>x xs. xpath_description tree = [] \<and> xpath_original_writeup tree = x # xs \<longrightarrow>
        link info = get_attribute x ''href'')"
    using l by (auto split: list.splits)
  with a r show ?thesis by blast
qed

theorem resolved_url_of_successful_resolution_witness:
  "extract_info (always (serving page_plain)) row_A =
     ([Get (BASE_URL @ ''/writeup/1'')],
      Inr \<lparr>ctf = ''CTF1'', challenge = ''pwn200'', link = Some (BASE_URL @ ''/writeup/1'')\<rparr>) \<and>
   (\<exists>a path i r tree.
     item0 (xpath_td_a 5 row_A) = Inr a \<and> get_attribute a ''href'' = Some path \<and>
     i < MAX_RETRIES \<and> always (serving page_plain) i (BASE_URL @ path) = Response r \<and>
     status_code r = 200 \<and> content r = Some tree \<and>
     (xpath_description tree = [] \<and> xpath_original_writeup tree = [] \<longrightarrow>
        Some (BASE_URL @ ''/writeup/1'') = Some (BASE_URL @ path) \<and> BASE_URL @ path \<noteq> []))"
proof -
  have "always (serving page_plain) 0 (BASE_URL @ ''/writeup/1'') =
      Response \<lparr>status_code = 200, content = Some page_plain\<rparr>"
    by (simp add: always_def serving_def)
  from extract_info_first_attempt [where net = "always (serving page_plain)",
      OF row_A_labels row_A_anchor row_A_href this]
  have e: "extract_info (always (serving page_plain)) row_A =
     ([Get (BASE_URL @ ''/writeup/1'')],
      Inr \<lparr>ctf = ''CTF1'', challenge = ''pwn200'', link = Some (BASE_URL @ ''/writeup/1'')\<rparr>)"
    by (simp add: page_plain_queries)
  from resolved_url_of_successful_resolution [OF e] show ?thesis
    using e by (simp only: RowInformation.simps) blast
qed

text \<open>
  C5, as stated, at an index page with two rows, where the first row's detail page answers
  503 on every attempt and the second row resolves at its first attempt: the crawl produces
  no outcome for the second row, it raises the first row's \<open>CouldNotFetchInformation\<close>.
\<close>

theorem row_failure_aborts_crawl_counterexample:
  "xpath_rows index_two_rows = [row_A, row_B] \<and>
   snd (extract_info (steady site_first_down 1) row_B) =
     Inr \<lparr>ctf = ''CTF2'', challenge = ''pwn300'', link = Some ''https://blog.example/b''\<rparr> \<and>
   get_all_writetups site_first_down (steady site_first_down) [] =
     ([Get index_url, LogInfo ''Fetched the write-ups list.''],
      Inl (CouldNotFetchInformation
        ''Could not fetch write-up URL (CTF1 - pwn200) information after 15 retries.''))"
proof -
  have b: "extract_info (steady site_first_down 1) row_B =
     ([Get (BASE_URL @ ''/writeup/2'')],
      Inr \<lparr>ctf = ''CTF2'', challenge = ''pwn300'', link = Some ''https://blog.example/b''\<rparr>)"
    by (rule extract_info_row_B_fallback) (simp add: steady_def site_first_down_def not_index_url)
  have "pool_map [] (\<lambda>(k, row). snd (extract_info (steady site_first_down k) row))
      [(0, row_A), (1, row_B)] =
      Inl (CouldNotFetchInformation
        ''Could not fetch write-up URL (CTF1 - pwn200) information after 15 retries.'')"
    by (simp add: pool_map_def chunksize_def PARALLEL_REQ_def get_tasks.simps Let_def
        extract_info_row_A_first_down b)
  then show ?thesis
    using b
    by (simp add: get_all_writetups_def site_first_down_def [of index_url]
        assert_status_200_def fromstring_def xpath_rows_index_two_rows)
qed

text \<open>
  C5 (amended). When a row's resolution fails terminally after exhausting all retries, the
  failure is not kept to that row: \<open>get_all_writetups\<close> as a whole raises the exception of
  one of the rows that failed, returns no record for any row, and the script prints no
  result list.
\<close>

theorem row_failure_aborts_crawl:
  assumes "net index_url = Response r" and "status_code r = 200" and "content r = Some tree"
    and "k < length (xpath_rows tree)"
    and "snd (extract_info (workers k) (xpath_rows tree ! k)) =
           Inl (CouldNotFetchInformation msg)"
  shows "(\<exists>e. snd (get_all_writetups net workers finished) = Inl e \<and>
            (\<exists>j<length (xpath_rows tree).
               snd (extract_info (workers j) (xpath_rows tree ! j)) = Inl e)) \<and>
         (\<forall>info. snd (get_all_writetups net workers finished) \<noteq> Inr info) \<and>
         (\<forall>info. PPrint info \<notin> set (fst (main net workers finished)))"
proof -
  have no: "snd (get_all_writetups net workers finished) \<noteq> Inr info" for info
  proof
    assume "snd (get_all_writetups net workers finished) = Inr info"
    then have "snd (extract_info (workers k) (xpath_rows tree ! k)) = Inr (info ! k)"
      unfolding get_all_writetups_Inr [where net = net, OF assms(1-3)] using assms(4) by simp
    then show False using assms(5) by simp
  qed
  then obtain e where e: "snd (get_all_writetups net workers finished) = Inl e"
    by (cases "snd (get_all_writetups net workers finished)") auto
  from get_all_writetups_Inl [where net = net, OF assms(1-3) e] e no main_crawl_failed [OF e]
  show ?thesis by blast
qed

theorem row_failure_aborts_crawl_witness:
  "snd (get_all_writetups site_first_down (steady site_first_down) [1, 0]) =
     Inl (CouldNotFetchInformation
       ''Could not fetch write-up URL (CTF1 - pwn200) information after 15 retries.'')"
proof -
  have idx: "site_first_down index_url =
      Response \<lparr>status_code = 200, content = Some index_two_rows\<rparr>"
    by (simp add: site_first_down_def)
  have k: "0 < length (xpath_rows index_two_rows)"
    by (simp add: xpath_rows_index_two_rows)
  have a: "snd (extract_info (steady site_first_down 0) (xpath_rows index_two_rows ! 0)) =
      Inl (CouldNotFetchInformation
       ''Could not fetch write-up URL (CTF1 - pwn200) information after 15 retries.'')"
    by (simp add: xpath_rows_index_two_rows extract_info_row_A_first_down)
  have b: "snd (extract_info (steady site_first_down 1) (xpath_rows index_two_rows ! 1)) =
     Inr \<lparr>ctf = ''CTF2'', challenge = ''pwn300'', link = Some ''https://blog.example/b''\<rparr>"
    by (simp add: xpath_rows_index_two_rows extract_info_row_B_fallback steady_def
        site_first_down_def not_index_url)
  from row_failure_aborts_crawl [where net = site_first_down
      and workers = "steady site_first_down" and finished = "[1, 0]"
      and tree = index_two_rows and k = 0, OF idx _ _ k a]
  obtain e j where e: "snd (get_all_writetups site_first_down (steady site_first_down) [1, 0]) = Inl e"
    and j: "j < length (xpath_rows index_two_rows)"
      "snd (extract_info (steady site_first_down j) (xpath_rows index_two_rows ! j)) = Inl e"
    by auto
  from j(1) have "j = 0 \<or> j = 1" by (auto simp add: xpath_rows_index_two_rows)
  then have "e = CouldNotFetchInformation
       ''Could not fetch write-up URL (CTF1 - pwn200) information after 15 retries.''"
    using j(2) a b by auto
  then show ?thesis using e by simp
qed




text \<open>
  C7. The status check raises the transient error \<open>CouldNotFetchInformation\<close> if and only if
  the status code is not exactly 200, and returns normally for 200; redirects (302) and
  server errors (500) are transient like every other status.
\<close>

theorem assert_status_200_iff:
  "(assert_status_200 status = Inr ()) = (status = 200) \<and>
   (assert_status_200 status =
      Inl (CouldNotFetchInformation (''Excpected status_code = 200, got '' @ str_int status)))
     = (status \<noteq> 200)"
  by (simp add: assert_status_200_def)

theorem assert_status_200_iff_witness:
  "assert_status_200 200 = Inr () \<and>
   assert_status_200 302 = Inl (CouldNotFetchInformation ''Excpected status_code = 200, got 302'') \<and>
   assert_status_200 500 = Inl (CouldNotFetchInformation ''Excpected status_code = 200, got 500'')"
  using assert_status_200_iff [of 200] assert_status_200_iff [of 302] assert_status_200_iff [of 500]
  by (simp add: str_int_def str_nat.simps digit_char_def)

text \<open>
  C8. A row whose column-1 anchor text, column-2 anchor text or column-5 anchor is missing
  makes \<open>extract_info\<close> raise \<^verbatim>\<open>IndexError\<close> at once: no record is produced, no request is
  sent and nothing is retried (the trace is empty), and the error is not the transient
  \<open>CouldNotFetchInformation\<close>.
\<close>

theorem absent_structure_is_hard_error:
  assumes "xpath_td_a_text 1 row = [] \<or> xpath_td_a_text 2 row = [] \<or> xpath_td_a 5 row = []"
  shows "extract_info net row = ([], Inl IndexError) \<and>
         (\<forall>msg. snd (extract_info net row) \<noteq> Inl (CouldNotFetchInformation msg))"
  using assms by (auto simp add: extract_info_def item0_def split: list.splits)

theorem absent_structure_is_hard_error_witness:
  "xpath_td_a 5 row_short = [] \<and>
   extract_info (always (serving page_inline)) row_short = ([], Inl IndexError)"
proof -
  have "xpath_td_a 5 row_short = []"
    by (simp add: row_short_def xpath_td_a_def td_def)
  then show ?thesis
    using absent_structure_is_hard_error [of row_short "always (serving page_inline)"] by simp
qed

text \<open>
  C9. When every attempt of a row gets a status other than 200, each of the 15 requests is
  followed by a sleep, the last one included: the trace is request, sleep, ..., fifteen
  times, it ends with the sleep of attempt 14, and only then is the terminal
  \<open>CouldNotFetchInformation\<close> raised.
\<close>

theorem retries_sleep_after_every_failure:
  assumes "xpath_td_a_text 1 row = c # cs" and "xpath_td_a_text 2 row = ch # chs"
    and "xpath_td_a 5 row = a # as" and "get_attribute a ''href'' = Some path"
    and "\<forall>i<MAX_RETRIES. \<exists>r. net i (BASE_URL @ path) = Response r \<and> status_code r \<noteq> 200"
  shows "fst (extract_info net row) =
           concat (map (\<lambda>i. [Get (BASE_URL @ path), Sleep i]) [0..<MAX_RETRIES]) \<and>
         filter is_Sleep (fst (extract_info net row)) = map Sleep [0..<MAX_RETRIES] \<and>
         length (filter is_Sleep (fst (extract_info net row))) = MAX_RETRIES \<and>
         last (fst (extract_info net row)) = Sleep (MAX_RETRIES - 1) \<and>
         snd (extract_info net row) = Inl (CouldNotFetchInformation (retries_message c ch))"
proof -
  have "last (concat (map (\<lambda>i. [Get (BASE_URL @ path), Sleep i]) [0..<MAX_RETRIES])) =
      Sleep (MAX_RETRIES - 1)"
    by (rule last_attempts) (simp add: MAX_RETRIES_def)
  then show ?thesis
    by (simp add: extract_info_all_fail [where net = net, OF assms] filter_is_Sleep_attempts
        del: upt_rec_numeral)
qed

theorem retries_sleep_after_every_failure_witness:
  "length (filter is_Sleep (fst (extract_info (always unavailable) row_A))) = 15 \<and>
   last (fst (extract_info (always unavailable) row_A)) = Sleep 14 \<and>
   snd (extract_info (always unavailable) row_A) =
     Inl (CouldNotFetchInformation
       ''Could not fetch write-up URL (CTF1 - pwn200) information after 15 retries.'')"
proof -
  have 6: "MAX_RETRIES = 15" by (simp add: MAX_RETRIES_def)
  note t = retries_sleep_after_every_failure [where net = "always unavailable",
      OF row_A_labels row_A_anchor row_A_href always_unavailable]
  have a: "length (filter is_Sleep (fst (extract_info (always unavailable) row_A))) = MAX_RETRIES"
    using t by blast
  have b: "last (fst (extract_info (always unavailable) row_A)) = Sleep (MAX_RETRIES - 1)"
    using t by blast
  have c: "snd (extract_info (always unavailable) row_A) =
      Inl (CouldNotFetchInformation (retries_message ''CTF1'' ''pwn200''))"
    using t by blast
  show ?thesis
    by (simp add: a b c 6 retries_message_def str_nat.simps digit_char_def)
qed

text \<open>
  C10. When \<open>get_all_writetups\<close> raises \<open>CouldNotFetchInformation\<close> (the index request got a
  status other than 200, or a row failed terminally), the script catches it and logs it,
  prints the separator line, and then reads \<open>info\<close>, which was never bound: the run ends
  with an unhandled \<^verbatim>\<open>NameError\<close> and no result list is printed.
\<close>

theorem main_name_error:
  assumes "snd (get_all_writetups net workers finished) = Inl (CouldNotFetchInformation msg)"
  shows "main net workers finished =
           (fst (get_all_writetups net workers finished) @
              [LogException ''Could not fetch the write-ups.'', Print (replicate 100 CHR ''='')],
            Some NameError) \<and>
         (\<forall>info. PPrint info \<notin> set (fst (main net workers finished)))"
proof -
  obtain es where g: "get_all_writetups net workers finished =
      (es, Inl (CouldNotFetchInformation msg))"
    using assms by (cases "get_all_writetups net workers finished") simp
  then show ?thesis
    using main_crawl_failed [OF assms] by (simp add: main_def)
qed

theorem main_name_error_witness:
  "main unavailable (steady unavailable) [] =
     ([Get index_url, LogException ''Could not fetch the write-ups.'',
       Print (replicate 100 CHR ''='')], Some NameError) \<and>
   main site_details_down (steady site_details_down) [] =
     ([Get index_url, LogInfo ''Fetched the write-ups list.'',
       LogException ''Could not fetch the write-ups.'',
       Print (replicate 100 CHR ''='')], Some NameError)"
proof -
  have a: "get_all_writetups unavailable (steady unavailable) [] =
      ([Get index_url], Inl (CouldNotFetchInformation ''Excpected status_code = 200, got 503''))"
    by (simp add: get_all_writetups_def unavailable_def assert_status_200_def str_int_def
        str_nat.simps digit_char_def)
  note b = crawl_site_details_down
  show ?thesis
    using main_name_error [of unavailable "steady unavailable" "[]"] a
      main_name_error [of site_details_down "steady site_details_down" "[]"] b
    by simp
qed

end
